theory Spec2Isabelle
  imports Complex_Main
begin

section \<open>The fixed pendulum of \<^verbatim>\<open>mhs.py\<close>\<close>

text \<open>
  The program wires a physics library (pymunk) and a window library (pyglet) together.
  Its own code is the class \<^verbatim>\<open>Pendulum\<close> (two bodies, a joint, the derived
  \<^verbatim>\<open>vector\<close> and \<^verbatim>\<open>angle\<close>, and \<^verbatim>\<open>accelerate\<close>) and the class
  \<^verbatim>\<open>SimulationWindow\<close> (input handling and the update tick).

  Python floats are idealised as real numbers throughout: every equation below is an
  equation of exact arithmetic, so rounding, overflow, signed zeros and NaN are outside
  the model. The library calls the program makes are modelled by what the library
  computes on such numbers; the constraint solver behind \<^verbatim>\<open>Space.step\<close> is a
  parameter of the model.
\<close>

subsection \<open>Errors\<close>

datatype py_error = ZeroDivisionError

subsection \<open>Vectors: \<^verbatim>\<open>pymunk.Vec2d\<close> and the \<^verbatim>\<open>math\<close> functions it calls\<close>

datatype Vec2d = Vec2d (vec_x: real) (vec_y: real)

text \<open>\<^verbatim>\<open>Vec2d.__sub__\<close>, \<^verbatim>\<open>Vec2d.__add__\<close> and \<^verbatim>\<open>Vec2d.__rmul__\<close> (a scalar times a vector).\<close>

definition vec_sub :: "Vec2d \<Rightarrow> Vec2d \<Rightarrow> Vec2d" where
  "vec_sub u v = Vec2d (vec_x u - vec_x v) (vec_y u - vec_y v)"

definition vec_add :: "Vec2d \<Rightarrow> Vec2d \<Rightarrow> Vec2d" where
  "vec_add u v = Vec2d (vec_x u + vec_x v) (vec_y u + vec_y v)"

definition vec_rmul :: "real \<Rightarrow> Vec2d \<Rightarrow> Vec2d" where
  "vec_rmul k v = Vec2d (k * vec_x v) (k * vec_y v)"

text \<open>\<^verbatim>\<open>Vec2d.__truediv__\<close>: Python's float division raises on a zero divisor.\<close>

definition vec_truediv :: "Vec2d \<Rightarrow> real \<Rightarrow> py_error + Vec2d" where
  "vec_truediv v s =
     (if s = 0 then Inl ZeroDivisionError else Inr (Vec2d (vec_x v / s) (vec_y v / s)))"

text \<open>\<^verbatim>\<open>Vec2d.length\<close> is \<^verbatim>\<open>math.sqrt(self.x**2 + self.y**2)\<close>.\<close>

definition vec_length :: "Vec2d \<Rightarrow> real" where
  "vec_length v = sqrt ((vec_x v)\<^sup>2 + (vec_y v)\<^sup>2)"

text \<open>
  \<^verbatim>\<open>Vec2d.normalized\<close>: divides by the length unless the length is zero, where it
  returns the zero vector.
\<close>

definition normalized :: "Vec2d \<Rightarrow> py_error + Vec2d" where
  "normalized v =
     (let l = vec_length v in if l \<noteq> 0 then vec_truediv v l else Inr (Vec2d 0 0))"

text \<open>\<^verbatim>\<open>math.radians\<close> and \<^verbatim>\<open>math.degrees\<close>.\<close>

definition radians :: "real \<Rightarrow> real" where
  "radians d = d * pi / 180"

definition degrees :: "real \<Rightarrow> real" where
  "degrees r = r * 180 / pi"

text \<open>
  \<^verbatim>\<open>Vec2d.rotated\<close> turns a vector counter-clockwise by an angle in radians;
  \<^verbatim>\<open>Vec2d.rotated_degrees\<close> converts its argument first.
\<close>

definition rotated :: "Vec2d \<Rightarrow> real \<Rightarrow> Vec2d" where
  "rotated v t =
     Vec2d (vec_x v * cos t - vec_y v * sin t) (vec_x v * sin t + vec_y v * cos t)"

definition rotated_degrees :: "Vec2d \<Rightarrow> real \<Rightarrow> Vec2d" where
  "rotated_degrees v d = rotated v (radians d)"

text \<open>
  \<^verbatim>\<open>math.atan2 y x\<close> on real numbers: the angle of the point \<open>(x, y)\<close>, in
  \<open>(-\<pi>, \<pi>]\<close>, and \<open>0\<close> at the origin.
\<close>

definition atan2 :: "real \<Rightarrow> real \<Rightarrow> real" where
  "atan2 y x =
     (if 0 < x then arctan (y / x)
      else if x < 0 then (if 0 \<le> y then arctan (y / x) + pi else arctan (y / x) - pi)
      else if 0 < y then pi / 2
      else if y < 0 then - (pi / 2)
      else 0)"

text \<open>
  \<^verbatim>\<open>Vec2d.get_angle_between\<close> is \<^verbatim>\<open>math.atan2(cross, dot)\<close> with
  \<^verbatim>\<open>cross = self.x * other.y - self.y * other.x\<close> and
  \<^verbatim>\<open>dot = self.x * other.x + self.y * other.y\<close>;
  \<^verbatim>\<open>get_angle_degrees_between\<close> converts the result to degrees.
\<close>

definition get_angle_between :: "Vec2d \<Rightarrow> Vec2d \<Rightarrow> real" where
  "get_angle_between u v =
     (let cross = vec_x u * vec_y v - vec_y u * vec_x v;
          dot = vec_x u * vec_x v + vec_y u * vec_y v
      in atan2 cross dot)"

definition get_angle_degrees_between :: "Vec2d \<Rightarrow> Vec2d \<Rightarrow> real" where
  "get_angle_degrees_between u v = degrees (get_angle_between u v)"

subsection \<open>Bodies, shapes, joints and the space\<close>

datatype BodyType = DYNAMIC | KINEMATIC | STATIC

text \<open>
  A \<^verbatim>\<open>pymunk.Body\<close>. \<open>mass\<close> and \<open>moment\<close> are the constructor's arguments
  (both default to 0); a body starts at the origin, at rest and unrotated.
\<close>

record Body =
  body_type :: BodyType
  mass :: real
  moment :: real
  position :: Vec2d
  velocity :: Vec2d
  body_angle :: real
  angular_velocity :: real

definition new_Body :: "real \<Rightarrow> real \<Rightarrow> BodyType \<Rightarrow> Body" where
  "new_Body m i t =
     \<lparr>body_type = t, mass = m, moment = i, position = Vec2d 0 0, velocity = Vec2d 0 0,
      body_angle = 0, angular_velocity = 0\<rparr>"

text \<open>
  The inverse mass and inverse moment the engine keeps for a body: those of a body that
  is not dynamic are zero, which is what makes it immovable.
\<close>

definition m_inv :: "Body \<Rightarrow> real" where
  "m_inv b = (case body_type b of DYNAMIC \<Rightarrow> 1 / mass b | _ \<Rightarrow> 0)"

definition i_inv :: "Body \<Rightarrow> real" where
  "i_inv b = (case body_type b of DYNAMIC \<Rightarrow> 1 / moment b | _ \<Rightarrow> 0)"

text \<open>\<^verbatim>\<open>pymunk.moment_for_circle(mass, inner_radius, outer_radius, offset=(0, 0))\<close>.\<close>

definition moment_for_circle :: "real \<Rightarrow> real \<Rightarrow> real \<Rightarrow> Vec2d \<Rightarrow> real" where
  "moment_for_circle m r1 r2 off =
     m * (0.5 * (r1 * r1 + r2 * r2) + ((vec_x off)\<^sup>2 + (vec_y off)\<^sup>2))"

text \<open>
  \<^verbatim>\<open>Body.apply_impulse_at_local_point(impulse, point=(0, 0))\<close>. Both arguments are in
  the body's own frame: the engine turns the impulse by the body's rotation, and the
  point by its rotation and position, and then applies the impulse at that world point:
  the velocity gains the world impulse times the inverse mass, the angular velocity the
  cross product of the lever arm and the world impulse times the inverse moment.
\<close>

definition apply_impulse_at_world_point :: "Vec2d \<Rightarrow> Vec2d \<Rightarrow> Body \<Rightarrow> Body" where
  "apply_impulse_at_world_point j pt b =
     (let r = vec_sub pt (position b)
      in b\<lparr>velocity := vec_add (velocity b) (vec_rmul (m_inv b) j),
           angular_velocity :=
             angular_velocity b + i_inv b * (vec_x r * vec_y j - vec_y r * vec_x j)\<rparr>)"

definition apply_impulse_at_local_point :: "Vec2d \<Rightarrow> Vec2d \<Rightarrow> Body \<Rightarrow> Body" where
  "apply_impulse_at_local_point impulse pt b =
     apply_impulse_at_world_point
       (rotated impulse (body_angle b))
       (vec_add (position b) (rotated pt (body_angle b))) b"

text \<open>
  The program allocates exactly two bodies. \<open>BodyId\<close> is the identity of each, by which
  shapes, joints and the space refer to them; their current state is held in the
  \<open>Pendulum\<close> record below.
\<close>

datatype BodyId = static_body_id | circle_body_id

record Circle =
  shape_body :: BodyId
  radius :: real
  offset :: Vec2d

text \<open>
  \<^verbatim>\<open>pymunk.constraints.PinJoint(a, b, anchor_a=(0, 0), anchor_b=(0, 0))\<close>: its
  distance is the distance of the two anchor points when the joint is created.
\<close>

record PinJoint =
  joint_a :: BodyId
  joint_b :: BodyId
  anchor_a :: Vec2d
  anchor_b :: Vec2d
  distance :: real

record Space =
  gravity :: Vec2d
  bodies :: "BodyId list"
  shapes :: "Circle list"
  constraints :: "PinJoint list"

text \<open>\<^verbatim>\<open>pymunk.Space()\<close>: no gravity, nothing registered.\<close>

definition new_Space :: Space where
  "new_Space = \<lparr>gravity = Vec2d 0 0, bodies = [], shapes = [], constraints = []\<rparr>"

subsection \<open>\<^verbatim>\<open>class Pendulum\<close>\<close>

record Pendulum =
  space :: Space
  static_body :: Body
  circle_body :: Body

definition MASS :: real where
  "MASS = 0.100"

definition FORCE :: real where
  "FORCE = 10"

text \<open>
  \<^verbatim>\<open>Pendulum.__init__\<close> stores the space and calls \<^verbatim>\<open>_create_entities\<close>, which
  creates the two bodies, the circle shape and the joint and adds all four to the space.
\<close>

definition create_entities :: "Space \<Rightarrow> Pendulum" where
  "create_entities sp =
     (let sb = (new_Body 0 0 STATIC)\<lparr>position := Vec2d 360 360\<rparr>;
          mom = moment_for_circle MASS 0 10.0 (Vec2d 0 0);
          cb = (new_Body MASS mom DYNAMIC)\<lparr>position := Vec2d 360 50\<rparr>;
          circle_shape = \<lparr>shape_body = circle_body_id, radius = 10.0, offset = Vec2d 0 0\<rparr>;
          rod_joint =
            \<lparr>joint_a = static_body_id, joint_b = circle_body_id,
             anchor_a = Vec2d 0 0, anchor_b = Vec2d 0 0,
             distance = vec_length (vec_sub (position cb) (position sb))\<rparr>
      in \<lparr>space = sp\<lparr>bodies := bodies sp @ [static_body_id, circle_body_id],
                      shapes := shapes sp @ [circle_shape],
                      constraints := constraints sp @ [rod_joint]\<rparr>,
          static_body = sb, circle_body = cb\<rparr>)"

definition Pendulum_init :: "Space \<Rightarrow> Pendulum" where
  "Pendulum_init sp = create_entities sp"

text \<open>\<^verbatim>\<open>Pendulum.vector\<close>: from the fixed point to the centre of the circle.\<close>

definition vector :: "Pendulum \<Rightarrow> Vec2d" where
  "vector p = vec_sub (position (circle_body p)) (position (static_body p))"

text \<open>\<^verbatim>\<open>Pendulum.angle\<close>: degrees between the resting direction and \<open>vector\<close>.\<close>

definition angle :: "Pendulum \<Rightarrow> real" where
  "angle p = get_angle_degrees_between (Vec2d 0 (- 1)) (vector p)"

text \<open>
  \<^verbatim>\<open>Pendulum.accelerate\<close>. \<open>accelerate_impulse\<close> is its first line, the impulse
  \<^verbatim>\<open>self.FORCE * direction.normalized()\<close>; the second line hands it to
  \<^verbatim>\<open>apply_impulse_at_local_point\<close> of the circle body, with the default point.
\<close>

definition accelerate_impulse :: "Vec2d \<Rightarrow> py_error + Vec2d" where
  "accelerate_impulse direction =
     (case normalized direction of Inl e \<Rightarrow> Inl e | Inr n \<Rightarrow> Inr (vec_rmul FORCE n))"

definition accelerate :: "Pendulum \<Rightarrow> Vec2d \<Rightarrow> py_error + Pendulum" where
  "accelerate p direction =
     (case accelerate_impulse direction of
        Inl e \<Rightarrow> Inl e
      | Inr impulse \<Rightarrow>
          Inr (p\<lparr>circle_body :=
                   apply_impulse_at_local_point impulse (Vec2d 0 0) (circle_body p)\<rparr>))"

subsection \<open>\<^verbatim>\<open>class SimulationWindow\<close>\<close>

text \<open>
  The window owns the space (the one its model holds, \<open>space (model w)\<close>), the
  keyboard state and the label. \<open>keyboard w k\<close> is \<^verbatim>\<open>self.keyboard[k]\<close>: whether
  key \<open>k\<close> is held, with \<^verbatim>\<open>key.LEFT\<close> and \<^verbatim>\<open>key.RIGHT\<close> the key symbols of
  the window library.
\<close>

definition LEFT :: int where
  "LEFT = 65361"

definition RIGHT :: int where
  "RIGHT = 65363"

record SimulationWindow =
  model :: Pendulum
  keyboard :: "int \<Rightarrow> bool"
  angle_label_text :: string

definition INTERVAL :: real where
  "INTERVAL = 1.0 / 100"

text \<open>
  \<^verbatim>\<open>SimulationWindow.__init__\<close>: a new space with the gravity set, the pendulum built
  in it, no key held, and a label with no text yet.
\<close>

definition SimulationWindow_init :: SimulationWindow where
  "SimulationWindow_init =
     (let sp = new_Space\<lparr>gravity := Vec2d 0 (- 9807)\<rparr>
      in \<lparr>model = Pendulum_init sp, keyboard = (\<lambda>k. False), angle_label_text = []\<rparr>)"

text \<open>\<^verbatim>\<open>SimulationWindow._handle_input\<close>.\<close>

definition handle_input :: "SimulationWindow \<Rightarrow> py_error + SimulationWindow" where
  "handle_input w =
     (if keyboard w LEFT then
        (case accelerate (model w) (rotated_degrees (vector (model w)) (- 90)) of
           Inl e \<Rightarrow> Inl e
         | Inr m \<Rightarrow> Inr (w\<lparr>model := m\<rparr>))
      else if keyboard w RIGHT then
        (case accelerate (model w) (rotated_degrees (vector (model w)) 90) of
           Inl e \<Rightarrow> Inl e
         | Inr m \<Rightarrow> Inr (w\<lparr>model := m\<rparr>))
      else Inr w)"

text \<open>
  The format specification \<^verbatim>\<open>4.0f\<close> of the label: the number rounded to no decimal
  place (a tie goes to the even neighbour), a minus sign when it is negative, its decimal
  digits, and spaces on the left up to four characters.
\<close>

definition round_half_even :: "real \<Rightarrow> int" where
  "round_half_even a =
     (let f = \<lfloor>a\<rfloor>; r = a - of_int f
      in if r < 1 / 2 then f else if 1 / 2 < r then f + 1 else if even f then f else f + 1)"

fun str_nat :: "nat \<Rightarrow> string" where
  "str_nat n =
     (if n < 10 then [''0123456789'' ! n]
      else str_nat (n div 10) @ [''0123456789'' ! (n mod 10)])"

declare str_nat.simps [simp del]

definition format_4_0f :: "real \<Rightarrow> string" where
  "format_4_0f a =
     (let body = (if a < 0 then ''-'' else []) @ str_nat (nat (round_half_even \<bar>a\<bar>))
      in replicate (4 - length body) (CHR '' '') @ body)"

text \<open>
  \<^verbatim>\<open>SimulationWindow.update\<close>. \<open>step\<close> stands for \<^verbatim>\<open>Space.step\<close>, the engine's
  integrator and constraint solver: given the time to advance by, it moves the bodies
  registered in the space. The last character of the label is the degree sign, code
  point 176.
\<close>

definition update ::
  "(real \<Rightarrow> Pendulum \<Rightarrow> Pendulum) \<Rightarrow> real \<Rightarrow> SimulationWindow \<Rightarrow> py_error + SimulationWindow"
  where
  "update step dt w =
     (case handle_input w of
        Inl e \<Rightarrow> Inl e
      | Inr w1 \<Rightarrow>
          (let w2 = w1\<lparr>model := step INTERVAL (model w1)\<rparr>
           in Inr (w2\<lparr>angle_label_text :=
                        ''Angle: '' @ format_4_0f (angle (model w2)) @ [CHR 0xB0]\<rparr>)))"

text \<open>
  The scheduler calls \<open>update\<close> tick after tick. Each tick carries the keys held at that
  moment and the \<open>dt\<close> the scheduler passes; \<open>run_updates\<close> gives the window after each
  call, \<open>bob_trajectory\<close> the Bob's position and velocity after each call.
\<close>

fun run_updates ::
  "(real \<Rightarrow> Pendulum \<Rightarrow> Pendulum) \<Rightarrow> ((int \<Rightarrow> bool) \<times> real) list \<Rightarrow> SimulationWindow
     \<Rightarrow> py_error + SimulationWindow list"
  where
  "run_updates step [] w = Inr []"
| "run_updates step ((keys, dt) # ticks) w =
     (case update step dt (w\<lparr>keyboard := keys\<rparr>) of
        Inl e \<Rightarrow> Inl e
      | Inr w' \<Rightarrow>
          (case run_updates step ticks w' of
             Inl e \<Rightarrow> Inl e
           | Inr ws \<Rightarrow> Inr (w' # ws)))"

definition bob_trajectory ::
  "(real \<Rightarrow> Pendulum \<Rightarrow> Pendulum) \<Rightarrow> ((int \<Rightarrow> bool) \<times> real) list \<Rightarrow> SimulationWindow
     \<Rightarrow> py_error + (Vec2d \<times> Vec2d) list"
  where
  "bob_trajectory step ticks w =
     (case run_updates step ticks w of
        Inl e \<Rightarrow> Inl e
      | Inr ws \<Rightarrow>
          Inr (map (\<lambda>w'. (position (circle_body (model w')), velocity (circle_body (model w'))))
                 ws))"

section \<open>Properties\<close>

subsection \<open>Vectors\<close>

lemma vec_length_eq_0_iff: "vec_length v = 0 \<longleftrightarrow> v = Vec2d 0 0"
  by (cases v) (simp add: vec_length_def)

lemma vec_length_nonneg: "0 \<le> vec_length v"
  by (simp add: vec_length_def)

lemma normalized_zero: "normalized (Vec2d 0 0) = Inr (Vec2d 0 0)"
  by (simp add: normalized_def vec_length_def)

lemma normalized_nonzero:
  "v \<noteq> Vec2d 0 0 \<Longrightarrow>
   normalized v = Inr (Vec2d (vec_x v / vec_length v) (vec_y v / vec_length v))"
  by (simp add: normalized_def Let_def vec_truediv_def vec_length_eq_0_iff)

lemma normalized_total: "\<exists>n. normalized v = Inr n"
  by (cases "v = Vec2d 0 0") (simp_all add: normalized_zero normalized_nonzero)

lemma vec_length_rmul: "vec_length (vec_rmul k v) = \<bar>k\<bar> * vec_length v"
proof -
  have "(k * vec_x v)\<^sup>2 + (k * vec_y v)\<^sup>2 = k\<^sup>2 * ((vec_x v)\<^sup>2 + (vec_y v)\<^sup>2)"
    by (simp add: power_mult_distrib distrib_left)
  then show ?thesis
    by (simp add: vec_length_def vec_rmul_def real_sqrt_mult)
qed

lemma normalized_scale:
  assumes "0 < k" and "v \<noteq> Vec2d 0 0"
  shows "normalized (vec_rmul k v) = normalized v"
proof -
  have nz: "vec_rmul k v \<noteq> Vec2d 0 0"
    using assms by (cases v) (auto simp: vec_rmul_def)
  have l: "vec_length v \<noteq> 0"
    using assms(2) by (simp add: vec_length_eq_0_iff)
  show ?thesis
    using assms l
    by (simp add: normalized_nonzero nz vec_length_rmul) (simp add: vec_rmul_def)
qed


lemma rotation_square_sum:
  fixes a b c s :: real
  shows "(a * c - b * s)\<^sup>2 + (a * s + b * c)\<^sup>2 = (a\<^sup>2 + b\<^sup>2) * (s\<^sup>2 + c\<^sup>2)"
  by (simp add: power2_eq_square algebra_simps)

lemma vec_length_rotated: "vec_length (rotated v t) = vec_length v"
  by (simp add: vec_length_def rotated_def rotation_square_sum)

lemma apply_impulse_at_centre:
  "apply_impulse_at_local_point j (Vec2d 0 0) b =
     b\<lparr>velocity := vec_add (velocity b) (vec_rmul (m_inv b) (rotated j (body_angle b)))\<rparr>"
  by (simp add: apply_impulse_at_local_point_def apply_impulse_at_world_point_def
      rotated_def vec_add_def vec_sub_def)

lemma accelerate_result:
  "\<exists>j. accelerate_impulse d = Inr j \<and>
       accelerate p d =
         Inr (p\<lparr>circle_body := (circle_body p)\<lparr>velocity :=
                vec_add (velocity (circle_body p))
                  (vec_rmul (m_inv (circle_body p)) (rotated j (body_angle (circle_body p))))\<rparr>\<rparr>)"
proof -
  obtain n where "normalized d = Inr n"
    using normalized_total by blast
  then show ?thesis
    by (simp add: accelerate_def accelerate_impulse_def apply_impulse_at_centre)
qed

lemma vec_sub_add_cancel: "vec_sub (vec_add u w) u = w"
  by (cases u, cases w) (simp add: vec_sub_def vec_add_def)

lemma rotated_zero: "rotated v 0 = v"
  by (simp add: rotated_def)

lemma vec_rmul_rmul: "vec_rmul a (vec_rmul b v) = vec_rmul (a * b) v"
  by (simp add: vec_rmul_def)

subsection \<open>The angle function \<open>atan2\<close>\<close>

lemma cos_pos_range:
  assumes "0 < cos t" and "- pi < t" and "t \<le> pi"
  shows "- (pi / 2) < t \<and> t < pi / 2"
proof -
  have up: "t < pi / 2"
  proof (rule ccontr)
    assume "\<not> t < pi / 2"
    then have "pi / 2 \<le> t" by simp
    then have "cos t \<le> cos (pi / 2)"
      using assms(3) by (intro cos_monotone_0_pi_le) simp_all
    then show False using assms(1) by simp
  qed
  have lo: "- (pi / 2) < t"
  proof (rule ccontr)
    assume "\<not> - (pi / 2) < t"
    then have "pi / 2 \<le> - t" by simp
    then have "cos (- t) \<le> cos (pi / 2)"
      using assms(2) by (intro cos_monotone_0_pi_le) simp_all
    then show False using assms(1) by simp
  qed
  show ?thesis using up lo by simp
qed

lemma sin_nonneg_range:
  assumes "0 \<le> sin t" and "- pi < t" and "t \<le> pi"
  shows "0 \<le> t"
proof (rule ccontr)
  assume "\<not> 0 \<le> t"
  then have "0 < - t" and "- t < pi" using assms(2) by simp_all
  then have "0 < sin (- t)" by (rule sin_gt_zero)
  then show False using assms(1) by simp
qed

lemma sin_neg_range:
  assumes "sin t < 0" and "- pi < t" and "t \<le> pi"
  shows "t < 0"
proof (rule ccontr)
  assume "\<not> t < 0"
  then have "0 \<le> sin t" using assms(3) by (intro sin_ge_zero) simp_all
  then show False using assms(1) by simp
qed

lemma atan2_right: "0 < x \<Longrightarrow> atan2 y x = arctan (y / x)"
  by (simp add: atan2_def)

lemma atan2_upper_left: "x < 0 \<Longrightarrow> 0 \<le> y \<Longrightarrow> atan2 y x = arctan (y / x) + pi"
  by (simp add: atan2_def)

lemma atan2_lower_left: "x < 0 \<Longrightarrow> y < 0 \<Longrightarrow> atan2 y x = arctan (y / x) - pi"
  by (simp add: atan2_def)

lemma atan2_up: "0 < y \<Longrightarrow> atan2 y 0 = pi / 2"
  by (simp add: atan2_def)

lemma atan2_down: "y < 0 \<Longrightarrow> atan2 y 0 = - (pi / 2)"
  by (simp add: atan2_def)

lemma atan2_origin: "atan2 0 0 = 0"
  by (simp add: atan2_def)

lemma atan2_polar:
  assumes r: "0 < r" and lo: "- pi < t" and hi: "t \<le> pi"
  shows "atan2 (r * sin t) (r * cos t) = t"
proof -
  have quot: "r * sin t / (r * cos t) = tan t"
    using r by (simp add: tan_def)
  consider (pos) "0 < cos t" | (neg) "cos t < 0" | (zero) "cos t = 0"
    by linarith
  then show ?thesis
  proof cases
    case pos
    then have "- (pi / 2) < t \<and> t < pi / 2"
      using lo hi by (rule cos_pos_range)
    then have "arctan (tan t) = t"
      by (simp add: arctan_tan)
    moreover have "0 < r * cos t"
      using pos r by simp
    then have "atan2 (r * sin t) (r * cos t) = arctan (r * sin t / (r * cos t))"
      by (rule atan2_right)
    ultimately show ?thesis
      by (simp only: quot)
  next
    case neg
    have x: "r * cos t < 0"
      using neg r by (simp add: mult_pos_neg)
    show ?thesis
    proof (cases "0 \<le> sin t")
      case True
      then have t0: "0 \<le> t" using lo hi by (rule sin_nonneg_range)
      have "\<not> t \<le> pi / 2"
      proof
        assume "t \<le> pi / 2"
        then have "0 \<le> cos t" using t0 by (intro cos_ge_zero) simp_all
        then show False using neg by simp
      qed
      then have rng: "- (pi / 2) < t - pi" "t - pi < pi / 2"
        using hi by simp_all
      have "tan (t - pi) = tan t"
        using tan_periodic_pi [of "t - pi"] by simp
      then have "arctan (tan t) = t - pi"
        using arctan_tan [OF rng] by simp
      moreover have "0 \<le> r * sin t"
        using True r by simp
      with x have "atan2 (r * sin t) (r * cos t) = arctan (r * sin t / (r * cos t)) + pi"
        by (rule atan2_upper_left)
      ultimately show ?thesis
        by (simp only: quot diff_add_cancel add_diff_cancel)
    next
      case False
      then have s: "sin t < 0" by simp
      then have t0: "t < 0" using lo hi by (rule sin_neg_range)
      have "\<not> - (pi / 2) \<le> t"
      proof
        assume "- (pi / 2) \<le> t"
        then have "0 \<le> cos t" using t0 by (intro cos_ge_zero) simp_all
        then show False using neg by simp
      qed
      then have rng: "- (pi / 2) < t + pi" "t + pi < pi / 2"
        using lo by simp_all
      have "tan (t + pi) = tan t"
        by (rule tan_periodic_pi)
      then have "arctan (tan t) = t + pi"
        using arctan_tan [OF rng] by simp
      moreover have "r * sin t < 0"
        using s r by (simp add: mult_pos_neg)
      with x have "atan2 (r * sin t) (r * cos t) = arctan (r * sin t / (r * cos t)) - pi"
        by (rule atan2_lower_left)
      ultimately show ?thesis
        by (simp only: quot diff_add_cancel add_diff_cancel)
    qed
  next
    case zero
    show ?thesis
    proof (cases "0 \<le> t")
      case True
      then have t: "t = pi / 2"
        using hi zero cos_inj_pi [of t "pi / 2"] by simp
      have "atan2 r 0 = pi / 2"
        using r by (rule atan2_up)
      then show ?thesis
        by (simp add: t)
    next
      case False
      then have "- t = pi / 2"
        using lo zero cos_inj_pi [of "- t" "pi / 2"] by simp
      then have t: "t = - (pi / 2)"
        by simp
      have "atan2 (- r) 0 = - (pi / 2)"
        using r by (intro atan2_down) simp
      then show ?thesis
        by (simp add: t)
    qed
  qed
qed

lemma atan2_range: "- pi < atan2 y x \<and> atan2 y x \<le> pi"
proof -
  have b: "- (pi / 2) < arctan (y / x)" "arctan (y / x) < pi / 2"
    by (rule arctan_lbound, rule arctan_ubound)
  consider (right) "0 < x" | (upper_left) "x < 0" "0 \<le> y" | (lower_left) "x < 0" "y < 0"
    | (up) "x = 0" "0 < y" | (down) "x = 0" "y < 0" | (origin) "x = 0" "y = 0"
    by linarith
  then show ?thesis
  proof cases
    case right
    then have "atan2 y x = arctan (y / x)" by (rule atan2_right)
    then show ?thesis using b pi_gt_zero by linarith
  next
    case upper_left
    then have "y / x \<le> 0" by (simp add: divide_nonneg_neg)
    then have "arctan (y / x) \<le> 0" by simp
    moreover have "atan2 y x = arctan (y / x) + pi"
      using upper_left by (rule atan2_upper_left)
    ultimately show ?thesis using b pi_gt_zero by linarith
  next
    case lower_left
    then have "0 < y / x" by (simp add: divide_neg_neg)
    then have "0 < arctan (y / x)" by simp
    moreover have "atan2 y x = arctan (y / x) - pi"
      using lower_left by (rule atan2_lower_left)
    ultimately show ?thesis using b pi_gt_zero by linarith
  next
    case up
    then have "atan2 y x = pi / 2" by (simp add: atan2_up)
    then show ?thesis using pi_gt_zero by linarith
  next
    case down
    then have "atan2 y x = - (pi / 2)" by (simp add: atan2_down)
    then show ?thesis using pi_gt_zero by linarith
  next
    case origin
    then have "atan2 y x = 0" by (simp add: atan2_origin)
    then show ?thesis using pi_gt_zero by linarith
  qed
qed

subsection \<open>\<open>Pendulum.vector\<close> and \<open>Pendulum.angle\<close>\<close>

text \<open>
  C7. For arbitrary positions of the Bob and the Anchor, negative coordinates included,
  \<open>vector\<close> is exactly the Bob's position minus the Anchor's, coordinate by coordinate.
  It is a function of the current positions, not a stored value: once the Bob or the
  Anchor has been moved, it is the difference of the new positions.
\<close>

theorem vector_is_bob_minus_anchor:
  "vector p = vec_sub (position (circle_body p)) (position (static_body p))
   \<and> vec_x (vector p) = vec_x (position (circle_body p)) - vec_x (position (static_body p))
   \<and> vec_y (vector p) = vec_y (position (circle_body p)) - vec_y (position (static_body p))
   \<and> vector (p\<lparr>circle_body := (circle_body p)\<lparr>position := q\<rparr>\<rparr>)
       = vec_sub q (position (static_body p))
   \<and> vector (p\<lparr>static_body := (static_body p)\<lparr>position := q\<rparr>\<rparr>)
       = vec_sub (position (circle_body p)) q"
  by (simp add: vector_def vec_sub_def)

lemma degrees_radians: "degrees (radians d) = d"
  by (simp add: degrees_def radians_def)

lemma angle_of_turned_rest:
  assumes l: "0 < l" and lo: "- 180 < d" and hi: "d \<le> 180"
    and v: "vector p = vec_rmul l (rotated_degrees (Vec2d 0 (- 1)) d)"
  shows "angle p = d"
proof -
  let ?t = "radians d"
  have lo': "- pi < ?t"
  proof -
    have "(- 180) * pi < d * pi"
      using lo pi_gt_zero by (rule mult_strict_right_mono)
    then show ?thesis
      by (simp add: radians_def)
  qed
  have hi': "?t \<le> pi"
  proof -
    have "d * pi \<le> 180 * pi"
      using hi pi_ge_zero by (rule mult_right_mono)
    then show ?thesis
      by (simp add: radians_def)
  qed
  have vec: "vector p = Vec2d (l * sin ?t) (- (l * cos ?t))"
    by (simp add: v vec_rmul_def rotated_degrees_def rotated_def)
  have "get_angle_between (Vec2d 0 (- 1)) (vector p) = atan2 (l * sin ?t) (l * cos ?t)"
    by (simp add: get_angle_between_def vec)
  also have "\<dots> = ?t"
    using l lo' hi' by (rule atan2_polar)
  finally show ?thesis
    by (simp add: angle_def get_angle_degrees_between_def degrees_radians)
qed

lemma angle_range: "- 180 < angle p \<and> angle p \<le> 180"
proof -
  let ?a = "get_angle_between (Vec2d 0 (- 1)) (vector p)"
  have "- pi < ?a \<and> ?a \<le> pi"
    unfolding get_angle_between_def Let_def by (rule atan2_range)
  then have 1: "(- 180) * pi < ?a * 180" and 2: "?a * 180 \<le> 180 * pi"
    by simp_all
  have "- 180 < ?a * 180 / pi"
    using 1 pi_gt_zero by (simp add: pos_less_divide_eq)
  moreover have "?a * 180 / pi \<le> 180"
    using 2 pi_gt_zero by (simp add: pos_divide_le_eq)
  ultimately show ?thesis
    by (simp add: angle_def get_angle_degrees_between_def degrees_def)
qed

text \<open>
  C1. \<open>angle\<close> is 0 when the Bob hangs straight below the Anchor, whatever the length
  \<open>l > 0\<close> of the displacement; when the displacement is the resting direction turned by
  \<open>+d\<close> degrees, \<open>0 < d < 180\<close>, \<open>angle\<close> is \<open>d\<close>, and turned by \<open>-d\<close> it is \<open>-d\<close>;
  and \<open>angle\<close> always lies in \<open>(-180, 180]\<close>. On real numbers the equalities are exact.
\<close>

theorem angle_of_displacement:
  "(0 < l \<and> vector p = vec_rmul l (Vec2d 0 (- 1)) \<longrightarrow> angle p = 0)
   \<and> (0 < l \<and> 0 < d \<and> d < 180
        \<and> vector p = vec_rmul l (rotated_degrees (Vec2d 0 (- 1)) d) \<longrightarrow> angle p = d)
   \<and> (0 < l \<and> 0 < d \<and> d < 180
        \<and> vector p = vec_rmul l (rotated_degrees (Vec2d 0 (- 1)) (- d)) \<longrightarrow> angle p = - d)
   \<and> - 180 < angle p \<and> angle p \<le> 180"
proof -
  have rest: "rotated_degrees (Vec2d 0 (- 1)) 0 = Vec2d 0 (- 1)"
    by (simp add: rotated_degrees_def rotated_def radians_def)
  have a: "angle p = 0" if "0 < l" and "vector p = vec_rmul l (Vec2d 0 (- 1))"
    using that angle_of_turned_rest [of l 0 p] by (simp add: rest)
  have b: "angle p = d"
    if "0 < l" "0 < d" "d < 180" "vector p = vec_rmul l (rotated_degrees (Vec2d 0 (- 1)) d)"
    using that angle_of_turned_rest [of l d p] by simp
  have c: "angle p = - d"
    if "0 < l" "0 < d" "d < 180" "vector p = vec_rmul l (rotated_degrees (Vec2d 0 (- 1)) (- d))"
    using that angle_of_turned_rest [of l "- d" p] by simp
  show ?thesis
    using a b c angle_range [of p] by blast
qed

theorem angle_of_displacement_witness:
  "angle (create_entities new_Space) = 0
   \<and> angle ((create_entities new_Space)
        \<lparr>circle_body := (circle_body (create_entities new_Space))\<lparr>position := Vec2d 670 360\<rparr>\<rparr>)
       = 90
   \<and> angle ((create_entities new_Space)
        \<lparr>circle_body := (circle_body (create_entities new_Space))\<lparr>position := Vec2d 50 360\<rparr>\<rparr>)
       = - 90"
proof -
  let ?p = "create_entities new_Space"
  let ?q = "?p\<lparr>circle_body := (circle_body ?p)\<lparr>position := Vec2d 670 360\<rparr>\<rparr>"
  let ?r = "?p\<lparr>circle_body := (circle_body ?p)\<lparr>position := Vec2d 50 360\<rparr>\<rparr>"
  have p: "(0::real) < 310 \<and> vector ?p = vec_rmul 310 (Vec2d 0 (- 1))"
    by (simp add: vector_def create_entities_def new_Body_def vec_sub_def vec_rmul_def)
  have q: "(0::real) < 310 \<and> (0::real) < 90 \<and> (90::real) < 180
        \<and> vector ?q = vec_rmul 310 (rotated_degrees (Vec2d 0 (- 1)) 90)"
    by (simp add: vector_def create_entities_def new_Body_def vec_sub_def vec_rmul_def
        rotated_degrees_def rotated_def radians_def)
  have r: "(0::real) < 310 \<and> (0::real) < 90 \<and> (90::real) < 180
        \<and> vector ?r = vec_rmul 310 (rotated_degrees (Vec2d 0 (- 1)) (- 90))"
    by (simp add: vector_def create_entities_def new_Body_def vec_sub_def vec_rmul_def
        rotated_degrees_def rotated_def radians_def)
  show ?thesis
    using p q r angle_of_displacement [of 310 ?p 90] angle_of_displacement [of 310 ?q 90]
      angle_of_displacement [of 310 ?r 90]
    by blast
qed

subsection \<open>\<open>Pendulum.accelerate\<close>\<close>

lemma accelerate_total: "\<exists>p'. accelerate p d = Inr p'"
  using accelerate_result [of d p] by blast

lemma accelerate_velocity_change:
  assumes "accelerate p d = Inr p'" and "accelerate_impulse d = Inr j"
  shows "vec_sub (velocity (circle_body p')) (velocity (circle_body p))
           = vec_rmul (m_inv (circle_body p)) (rotated j (body_angle (circle_body p)))"
  using assms by (auto simp: accelerate_def apply_impulse_at_centre vec_sub_add_cancel)

lemma accelerate_direction_unrotated:
  assumes d: "d \<noteq> Vec2d 0 0" and unrotated: "body_angle (circle_body p) = 0"
    and movable: "0 < m_inv (circle_body p)" and acc: "accelerate p d = Inr p'"
  shows "normalized (vec_sub (velocity (circle_body p')) (velocity (circle_body p)))
           = normalized d"
proof -
  let ?l = "vec_length d"
  have l: "0 < ?l"
    using d vec_length_nonneg [of d] by (simp add: vec_length_eq_0_iff less_le)
  have n: "normalized d = Inr (Vec2d (vec_x d / ?l) (vec_y d / ?l))"
    using d by (rule normalized_nonzero)
  have unit: "Vec2d (vec_x d / ?l) (vec_y d / ?l) = vec_rmul (1 / ?l) d"
    by (simp add: vec_rmul_def)
  have j: "accelerate_impulse d = Inr (vec_rmul FORCE (vec_rmul (1 / ?l) d))"
    by (simp add: accelerate_impulse_def n unit)
  have "vec_sub (velocity (circle_body p')) (velocity (circle_body p))
          = vec_rmul (m_inv (circle_body p) * (FORCE * (1 / ?l))) d"
    using accelerate_velocity_change [OF acc j]
    by (simp add: unrotated rotated_zero vec_rmul_rmul)
  moreover have "0 < m_inv (circle_body p) * (FORCE * (1 / ?l))"
    using movable l by (simp add: FORCE_def)
  ultimately show ?thesis
    using d by (simp add: normalized_scale)
qed

text \<open>
  C9. \<open>accelerate\<close> does not raise on the zero vector: \<open>normalized\<close> returns the zero
  vector without dividing, the impulse is zero, and the pendulum, the Bob's velocity
  included, is left as it was.
\<close>

theorem accelerate_zero_vector_total:
  "normalized (Vec2d 0 0) = Inr (Vec2d 0 0)
   \<and> accelerate_impulse (Vec2d 0 0) = Inr (Vec2d 0 0)
   \<and> accelerate p (Vec2d 0 0) = Inr p
   \<and> (\<exists>p'. accelerate p (Vec2d 0 0) = Inr p'
          \<and> velocity (circle_body p') = velocity (circle_body p))"
  by (simp add: accelerate_def accelerate_impulse_def normalized_zero apply_impulse_at_centre
        vec_rmul_def rotated_def vec_add_def)

text \<open>
  C10. \<open>accelerate\<close> always returns, and the pendulum it returns differs from the one
  it was given in the Bob's velocity only: the Anchor, the Bob's position, rotation and
  angular velocity, the space with its joint, and therefore \<open>vector\<close> and \<open>angle\<close>, are
  unchanged.
\<close>

theorem accelerate_changes_only_velocity:
  "\<exists>p' v. accelerate p d = Inr p'
      \<and> p' = p\<lparr>circle_body := (circle_body p)\<lparr>velocity := v\<rparr>\<rparr>
      \<and> static_body p' = static_body p
      \<and> position (static_body p') = position (static_body p)
      \<and> position (circle_body p') = position (circle_body p)
      \<and> body_angle (circle_body p') = body_angle (circle_body p)
      \<and> angular_velocity (circle_body p') = angular_velocity (circle_body p)
      \<and> space p' = space p
      \<and> constraints (space p') = constraints (space p)
      \<and> vector p' = vector p
      \<and> angle p' = angle p"
proof -
  obtain j where "accelerate p d =
         Inr (p\<lparr>circle_body := (circle_body p)\<lparr>velocity :=
                vec_add (velocity (circle_body p))
                  (vec_rmul (m_inv (circle_body p)) (rotated j (body_angle (circle_body p))))\<rparr>\<rparr>)"
    using accelerate_result [of d p] by blast
  then show ?thesis
    by (simp add: vector_def angle_def) (rule exI, rule refl)
qed




subsection \<open>The constructors\<close>

lemma vec_length_axis:
  "vec_length (Vec2d a 0) = \<bar>a\<bar>"
  "vec_length (Vec2d 0 b) = \<bar>b\<bar>"
  by (simp_all add: vec_length_def)

text \<open>
  C6. \<open>Pendulum_init\<close> creates the static Anchor at \<open>(360, 360)\<close>, the Bob of mass
  \<open>0.1\<close> with the moment of a solid disk of radius 10 (mass times radius squared over
  two) at \<open>(360, 50)\<close>, and the pin joint between them, of length 310; it adds both
  bodies, the circle of radius 10 on the Bob and the joint to the space, after what the
  space held before. The window's space has gravity \<open>(0, -9807)\<close> and holds nothing else.
\<close>

theorem pendulum_construction:
  "body_type (static_body (Pendulum_init sp)) = STATIC
   \<and> position (static_body (Pendulum_init sp)) = Vec2d 360 360
   \<and> body_type (circle_body (Pendulum_init sp)) = DYNAMIC
   \<and> mass (circle_body (Pendulum_init sp)) = 0.1
   \<and> moment (circle_body (Pendulum_init sp)) = 0.1 * 10\<^sup>2 / 2
   \<and> position (circle_body (Pendulum_init sp)) = Vec2d 360 50
   \<and> velocity (circle_body (Pendulum_init sp)) = Vec2d 0 0
   \<and> bodies (space (Pendulum_init sp)) = bodies sp @ [static_body_id, circle_body_id]
   \<and> shapes (space (Pendulum_init sp))
       = shapes sp @ [\<lparr>shape_body = circle_body_id, radius = 10, offset = Vec2d 0 0\<rparr>]
   \<and> constraints (space (Pendulum_init sp))
       = constraints sp @ [\<lparr>joint_a = static_body_id, joint_b = circle_body_id,
                            anchor_a = Vec2d 0 0, anchor_b = Vec2d 0 0, distance = 310\<rparr>]
   \<and> gravity (space (Pendulum_init sp)) = gravity sp
   \<and> model SimulationWindow_init = Pendulum_init (new_Space\<lparr>gravity := Vec2d 0 (- 9807)\<rparr>)
   \<and> gravity (space (model SimulationWindow_init)) = Vec2d 0 (- 9807)
   \<and> bodies (space (model SimulationWindow_init)) = [static_body_id, circle_body_id]
   \<and> shapes (space (model SimulationWindow_init))
       = [\<lparr>shape_body = circle_body_id, radius = 10, offset = Vec2d 0 0\<rparr>]
   \<and> constraints (space (model SimulationWindow_init))
       = [\<lparr>joint_a = static_body_id, joint_b = circle_body_id,
           anchor_a = Vec2d 0 0, anchor_b = Vec2d 0 0, distance = 310\<rparr>]"
proof -
  have d: "vec_length (vec_sub (Vec2d 360 50) (Vec2d 360 360)) = 310"
    by (simp add: vec_sub_def vec_length_axis)
  show ?thesis
    by (simp add: SimulationWindow_init_def Pendulum_init_def create_entities_def Let_def
        new_Body_def new_Space_def moment_for_circle_def MASS_def d)
qed

subsection \<open>Input handling and the update tick\<close>

lemma rotated_degrees_quarter:
  "rotated_degrees v (- 90) = Vec2d (vec_y v) (- vec_x v)"
  "rotated_degrees v 90 = Vec2d (- vec_y v) (vec_x v)"
  by (simp_all add: rotated_degrees_def rotated_def radians_def)

lemma handle_input_total: "\<exists>w'. handle_input w = Inr w'"
proof -
  obtain m1 where m1: "accelerate (model w) (rotated_degrees (vector (model w)) (- 90)) = Inr m1"
    using accelerate_total by blast
  obtain m2 where m2: "accelerate (model w) (rotated_degrees (vector (model w)) 90) = Inr m2"
    using accelerate_total by blast
  show ?thesis
    by (simp add: handle_input_def m1 m2)
qed

lemma update_total: "\<exists>w'. update step dt w = Inr w'"
proof -
  obtain w1 where "handle_input w = Inr w1"
    using handle_input_total by blast
  then show ?thesis
    by (simp add: update_def Let_def)
qed

lemma update_ignores_dt: "update step dt w = update step dt' w"
  by (simp add: update_def)

lemma update_uses_step_at_INTERVAL:
  "step' INTERVAL = step INTERVAL \<Longrightarrow> update step' dt w = update step dt w"
  by (simp add: update_def split: sum.split)

lemma run_updates_ignores_dt:
  "map fst ticks1 = map fst ticks2 \<Longrightarrow> run_updates step ticks1 w = run_updates step ticks2 w"
proof (induction ticks1 arbitrary: ticks2 w)
  case Nil
  then show ?case by simp
next
  case (Cons t ticks1)
  then obtain t' ticks2' where t2: "ticks2 = t' # ticks2'"
    by (cases ticks2) auto
  obtain keys dt where t: "t = (keys, dt)"
    by (cases t)
  obtain keys' dt' where t': "t' = (keys', dt')"
    by (cases t')
  have k: "keys' = keys" and rest: "map fst ticks1 = map fst ticks2'"
    using Cons.prems by (simp_all add: t2 t t')
  have u: "update step dt' (w\<lparr>keyboard := keys\<rparr>) = update step dt (w\<lparr>keyboard := keys\<rparr>)"
    by (rule update_ignores_dt)
  show ?case
    by (simp add: t2 t t' k u Cons.IH [OF rest] split: sum.split)
qed

lemma run_updates_total:
  "\<exists>ws. run_updates step ticks w = Inr ws \<and> length ws = length ticks"
proof (induction ticks arbitrary: w)
  case Nil
  then show ?case by simp
next
  case (Cons t ticks)
  obtain keys dt where t: "t = (keys, dt)"
    by (cases t)
  obtain w' where u: "update step dt (w\<lparr>keyboard := keys\<rparr>) = Inr w'"
    using update_total by blast
  obtain ws where "run_updates step ticks w' = Inr ws" "length ws = length ticks"
    using Cons.IH by blast
  then show ?case
    by (simp add: t u)
qed

text \<open>
  C2. Two runs of \<open>update\<close> from the same window, with the same keys held at each tick
  and any \<open>dt\<close> arguments, give the same windows and so the same positions and
  velocities of the Bob after each call; the runs do not fail, and there is one entry
  per tick. \<open>update\<close> does not depend on \<open>dt\<close>: by
  \<open>update_uses_step_at_INTERVAL\<close> it calls the engine at \<open>INTERVAL = 1/100\<close> only.
\<close>

theorem update_fixed_step_determinism:
  assumes "map fst ticks1 = map fst ticks2"
  shows "bob_trajectory step ticks1 w = bob_trajectory step ticks2 w
     \<and> run_updates step ticks1 w = run_updates step ticks2 w
     \<and> (\<exists>tr. bob_trajectory step ticks1 w = Inr tr \<and> length tr = length ticks1)
     \<and> update step dt w = update step dt' w
     \<and> INTERVAL = 1 / 100"
proof -
  have r: "run_updates step ticks1 w = run_updates step ticks2 w"
    using assms by (rule run_updates_ignores_dt)
  obtain ws where ws: "run_updates step ticks1 w = Inr ws" "length ws = length ticks1"
    using run_updates_total by blast
  have u: "update step dt w = update step dt' w"
    by (rule update_ignores_dt)
  have ws2: "run_updates step ticks2 w = Inr ws"
    using r ws(1) by simp
  show ?thesis
    using u by (simp add: bob_trajectory_def INTERVAL_def ws ws2)
qed

theorem update_fixed_step_determinism_witness:
  "bob_trajectory (\<lambda>t p. p\<lparr>circle_body := (circle_body p)\<lparr>position :=
        vec_add (position (circle_body p)) (vec_rmul t (velocity (circle_body p)))\<rparr>\<rparr>)
      [(\<lambda>k. k = LEFT, 1 / 100), (\<lambda>k. False, 1 / 50)] SimulationWindow_init
   = bob_trajectory (\<lambda>t p. p\<lparr>circle_body := (circle_body p)\<lparr>position :=
        vec_add (position (circle_body p)) (vec_rmul t (velocity (circle_body p)))\<rparr>\<rparr>)
      [(\<lambda>k. k = LEFT, 7), (\<lambda>k. False, 0)] SimulationWindow_init"
  using update_fixed_step_determinism
    [of "[(\<lambda>k. k = LEFT, 1 / 100), (\<lambda>k. False, 1 / 50)]" "[(\<lambda>k. k = LEFT, 7), (\<lambda>k. False, 0)]"]
  by simp

text \<open>
  C5. \<open>handle_input\<close>: with the left key held (the right key held or not) the model
  becomes the result of one \<open>accelerate\<close> with \<open>vector\<close> turned by \<open>-90\<close> degrees; with
  only the right key held, of one \<open>accelerate\<close> with \<open>vector\<close> turned by \<open>+90\<close>
  degrees; with neither held the window is unchanged. \<open>update\<close> is \<open>handle_input\<close>, then
  the engine's step, then the label.
\<close>

theorem handle_input_left_before_right:
  "(keyboard w LEFT \<longrightarrow>
      (\<exists>m. accelerate (model w) (rotated_degrees (vector (model w)) (- 90)) = Inr m
         \<and> handle_input w = Inr (w\<lparr>model := m\<rparr>)))
   \<and> (keyboard w LEFT \<and> keyboard w RIGHT \<longrightarrow>
      (\<exists>m. accelerate (model w) (rotated_degrees (vector (model w)) (- 90)) = Inr m
         \<and> handle_input w = Inr (w\<lparr>model := m\<rparr>)))
   \<and> (\<not> keyboard w LEFT \<and> keyboard w RIGHT \<longrightarrow>
      (\<exists>m. accelerate (model w) (rotated_degrees (vector (model w)) 90) = Inr m
         \<and> handle_input w = Inr (w\<lparr>model := m\<rparr>)))
   \<and> (\<not> keyboard w LEFT \<and> \<not> keyboard w RIGHT \<longrightarrow> handle_input w = Inr w)
   \<and> (\<exists>w1. handle_input w = Inr w1
         \<and> update step dt w =
             Inr (w1\<lparr>model := step INTERVAL (model w1),
                     angle_label_text :=
                       ''Angle: '' @ format_4_0f (angle (step INTERVAL (model w1))) @ [CHR 0xB0]\<rparr>))"
proof -
  obtain m1 where m1: "accelerate (model w) (rotated_degrees (vector (model w)) (- 90)) = Inr m1"
    using accelerate_total by blast
  obtain m2 where m2: "accelerate (model w) (rotated_degrees (vector (model w)) 90) = Inr m2"
    using accelerate_total by blast
  obtain w1 where w1: "handle_input w = Inr w1"
    using handle_input_total by blast
  have u: "update step dt w =
             Inr (w1\<lparr>model := step INTERVAL (model w1),
                     angle_label_text :=
                       ''Angle: '' @ format_4_0f (angle (step INTERVAL (model w1))) @ [CHR 0xB0]\<rparr>)"
    by (simp add: update_def w1 Let_def)
  show ?thesis
    using u w1 by (simp add: handle_input_def m1 m2)
qed

theorem handle_input_left_before_right_witness:
  "(\<exists>w'. handle_input (SimulationWindow_init\<lparr>keyboard := \<lambda>k. True\<rparr>) = Inr w'
        \<and> velocity (circle_body (model w')) = Vec2d (- 100) 0)
   \<and> (\<exists>w'. handle_input (SimulationWindow_init\<lparr>keyboard := \<lambda>k. k = RIGHT\<rparr>) = Inr w'
        \<and> velocity (circle_body (model w')) = Vec2d 100 0)
   \<and> handle_input (SimulationWindow_init\<lparr>keyboard := \<lambda>k. False\<rparr>)
       = Inr (SimulationWindow_init\<lparr>keyboard := \<lambda>k. False\<rparr>)"
proof -
  let ?W = SimulationWindow_init
  have v: "vector (model ?W) = Vec2d 0 (- 310)"
    by (simp add: SimulationWindow_init_def Pendulum_init_def create_entities_def new_Body_def
        vector_def vec_sub_def)
  have b: "velocity (circle_body (model ?W)) = Vec2d 0 0"
    "body_angle (circle_body (model ?W)) = 0" "m_inv (circle_body (model ?W)) = 10"
    by (simp_all add: SimulationWindow_init_def Pendulum_init_def create_entities_def new_Body_def
        m_inv_def MASS_def)
  have l: "accelerate (model ?W) (Vec2d (- 310) 0)
        = Inr ((model ?W)\<lparr>circle_body := (circle_body (model ?W))\<lparr>velocity := Vec2d (- 100) 0\<rparr>\<rparr>)"
    by (simp add: accelerate_def accelerate_impulse_def normalized_def vec_length_axis
        vec_truediv_def apply_impulse_at_centre b FORCE_def vec_rmul_def rotated_def vec_add_def)
  have r: "accelerate (model ?W) (Vec2d 310 0)
        = Inr ((model ?W)\<lparr>circle_body := (circle_body (model ?W))\<lparr>velocity := Vec2d 100 0\<rparr>\<rparr>)"
    by (simp add: accelerate_def accelerate_impulse_def normalized_def vec_length_axis
        vec_truediv_def apply_impulse_at_centre b FORCE_def vec_rmul_def rotated_def vec_add_def)
  show ?thesis
    using handle_input_left_before_right [of "?W\<lparr>keyboard := \<lambda>k. True\<rparr>"]
      handle_input_left_before_right [of "?W\<lparr>keyboard := \<lambda>k. k = RIGHT\<rparr>"]
      handle_input_left_before_right [of "?W\<lparr>keyboard := \<lambda>k. False\<rparr>"]
    by (simp add: v l r rotated_degrees_quarter LEFT_def RIGHT_def)
qed

subsection \<open>The label\<close>











end
